theory Spec2Isabelle
  imports Complex_Main "HOL-Library.Sublist"
begin

section \<open>MindBalance AI: the Mental Health Score model of app.py\<close>

text \<open>
  The development embeds the computational part of \<^verbatim>\<open>src/app.py\<close>: the three
  normalisation functions, the weight table, the weighted score with its tier message and
  the recommendation rules. Python floats are read as exact real numbers: rounding of IEEE
  doubles is not part of this model. Python integers are \<open>int\<close>. Everything the source
  can raise is a value of type \<open>error\<close>.
\<close>

subsection \<open>Errors\<close>

datatype error = ZeroDivisionError | KeyError string | TypeError

definition bind_result :: "error + 'a \<Rightarrow> ('a \<Rightarrow> error + 'b) \<Rightarrow> error + 'b" where
  "bind_result m f = (case m of Inl e \<Rightarrow> Inl e | Inr v \<Rightarrow> f v)"

subsection \<open>Normalisation functions (lines 9 to 26)\<close>

text \<open>\<^verbatim>\<open>np.clip(a, a_min, a_max)\<close> on a scalar: the minimum of \<open>a_max\<close> and the maximum of
  \<open>a\<close> and \<open>a_min\<close>.\<close>

definition clip :: "real \<Rightarrow> real \<Rightarrow> real \<Rightarrow> real" where
  "clip a a_min a_max = min (max a a_min) a_max"

text \<open>\<^verbatim>\<open>return np.clip((x - min_val) / (max_val - min_val), 0, 1)\<close>. The arguments are
  Python numbers, so the division raises when the denominator is zero.\<close>

definition normalize_positive :: "real \<Rightarrow> real \<Rightarrow> real \<Rightarrow> error + real" where
  "normalize_positive x min_val max_val =
     (if max_val - min_val = 0 then Inl ZeroDivisionError
      else Inr (clip ((x - min_val) / (max_val - min_val)) 0 1))"

text \<open>\<^verbatim>\<open>return np.clip(1 - (x - min_val) / (max_val - min_val), 0, 1)\<close>.\<close>

definition normalize_negative :: "real \<Rightarrow> real \<Rightarrow> real \<Rightarrow> error + real" where
  "normalize_negative x min_val max_val =
     (if max_val - min_val = 0 then Inl ZeroDivisionError
      else Inr (clip (1 - (x - min_val) / (max_val - min_val)) 0 1))"

text \<open>The \<^verbatim>\<open>if\<close>/\<^verbatim>\<open>elif\<close> chain of \<^verbatim>\<open>normalize_sleep\<close> has no \<^verbatim>\<open>else\<close>: when no
  guard holds the Python function falls off its end and returns \<^verbatim>\<open>None\<close>, which is the
  \<open>None\<close> of the model.\<close>

definition normalize_sleep :: "real \<Rightarrow> real option" where
  "normalize_sleep x =
     (if x < 4 \<or> x > 12 then Some 0
      else if 4 \<le> x \<and> x < 7 then Some ((x - 4) / 3)
      else if 7 \<le> x \<and> x \<le> 9 then Some 1
      else if 9 < x \<and> x \<le> 12 then Some (1 - (x - 9) / 3)
      else None)"

subsection \<open>Feature weights (lines 29 to 41)\<close>

text \<open>The dictionary literal, as an association list in the order it is written.\<close>

definition FEATURE_WEIGHTS :: "(string \<times> real) list" where
  "FEATURE_WEIGHTS =
     [(''Sleep_Hours'', 0.1),
      (''Daily_Steps'', 0.1),
      (''Exercise_Frequency'', 0.1),
      (''Exercise_Duration'', 0.1),
      (''Diet_Quality'', 0.1),
      (''Social_Interaction'', 0.1),
      (''Happiness_Level'', 0.1),
      (''Screen_Time_Hours'', 0.1),
      (''Stress_Level'', 0.1),
      (''Anxiety_Level'', 0.05),
      (''Depression_Level'', 0.05)]"

text \<open>\<^verbatim>\<open>FEATURE_WEIGHTS[k]\<close>: a missing key raises \<^verbatim>\<open>KeyError\<close>.\<close>

definition lookup_weight :: "string \<Rightarrow> error + real" where
  "lookup_weight k =
     (case map_of FEATURE_WEIGHTS k of None \<Rightarrow> Inl (KeyError k) | Some w \<Rightarrow> Inr w)"

text \<open>\<^verbatim>\<open>s * FEATURE_WEIGHTS[k]\<close>: the weight is looked up, then multiplied; a score that
  is \<^verbatim>\<open>None\<close> makes the multiplication raise \<^verbatim>\<open>TypeError\<close>.\<close>

definition times_weight :: "real option \<Rightarrow> string \<Rightarrow> error + real" where
  "times_weight s k =
     bind_result (lookup_weight k)
       (\<lambda>w. case s of None \<Rightarrow> Inl TypeError | Some v \<Rightarrow> Inr (v * w))"

subsection \<open>The input batch (lines 55 to 74)\<close>

datatype gender_choice = Male | Female | Other_gender

datatype occupation_choice = Student | Working_Professional | Other_occupation

datatype exercise_choice = Cardio | Strength | Yoga | Other_exercise

text \<open>One field per widget. The two sliders with float bounds give floats, every other
  numeric widget gives an integer.\<close>

record inputs =
  age :: int
  gender :: gender_choice
  occupation :: occupation_choice
  sleep_hours :: real
  daily_steps :: int
  diet_quality :: int
  social_interaction :: int
  exercise_frequency :: int
  exercise_duration :: int
  exercise_type :: exercise_choice
  screen_time :: real
  stress_level :: int
  anxiety_level :: int
  depression_level :: int
  happiness_level :: int

text \<open>The initial values of the widgets.\<close>

definition default_inputs :: inputs where
  "default_inputs =
     \<lparr>age = 25, gender = Male, occupation = Student, sleep_hours = 7, daily_steps = 5000,
      diet_quality = 3, social_interaction = 5, exercise_frequency = 3,
      exercise_duration = 45, exercise_type = Cardio, screen_time = 4, stress_level = 5,
      anxiety_level = 5, depression_level = 5, happiness_level = 7\<rparr>"

subsection \<open>The score (lines 82 to 109)\<close>

text \<open>The eleven normalisations run first, in the order of the source, then the eleven
  products are formed and summed from left to right, then the sum is multiplied by 100.\<close>

definition mhs_score :: "inputs \<Rightarrow> error + real" where
  "mhs_score b =
     (let s_sleep = normalize_sleep (sleep_hours b) in
      bind_result (normalize_positive (real_of_int (daily_steps b)) 0 30000) (\<lambda>s_steps.
      bind_result (normalize_positive (real_of_int (exercise_frequency b)) 0 7) (\<lambda>s_exfreq.
      bind_result (normalize_positive (real_of_int (exercise_duration b)) 0 180) (\<lambda>s_exdur.
      bind_result (normalize_positive (real_of_int (diet_quality b)) 1 5) (\<lambda>s_diet.
      bind_result (normalize_positive (real_of_int (social_interaction b)) 0 20) (\<lambda>s_social.
      bind_result (normalize_positive (real_of_int (happiness_level b)) 1 10) (\<lambda>s_happy.
      bind_result (normalize_negative (screen_time b) 0 12) (\<lambda>s_screen.
      bind_result (normalize_negative (real_of_int (stress_level b)) 1 10) (\<lambda>s_stress.
      bind_result (normalize_negative (real_of_int (anxiety_level b)) 1 10) (\<lambda>s_anxiety.
      bind_result (normalize_negative (real_of_int (depression_level b)) 1 10) (\<lambda>s_depression.
      bind_result (times_weight s_sleep ''Sleep_Hours'') (\<lambda>t_sleep.
      bind_result (times_weight (Some s_steps) ''Daily_Steps'') (\<lambda>t_steps.
      bind_result (times_weight (Some s_exfreq) ''Exercise_Frequency'') (\<lambda>t_exfreq.
      bind_result (times_weight (Some s_exdur) ''Exercise_Duration'') (\<lambda>t_exdur.
      bind_result (times_weight (Some s_diet) ''Diet_Quality'') (\<lambda>t_diet.
      bind_result (times_weight (Some s_social) ''Social_Interaction'') (\<lambda>t_social.
      bind_result (times_weight (Some s_happy) ''Happiness_Level'') (\<lambda>t_happy.
      bind_result (times_weight (Some s_screen) ''Screen_Time_Hours'') (\<lambda>t_screen.
      bind_result (times_weight (Some s_stress) ''Stress_Level'') (\<lambda>t_stress.
      bind_result (times_weight (Some s_anxiety) ''Anxiety_Level'') (\<lambda>t_anxiety.
      bind_result (times_weight (Some s_depression) ''Depression_Level'') (\<lambda>t_depression.
      let score_norm = t_sleep + t_steps + t_exfreq + t_exdur + t_diet + t_social +
                       t_happy + t_screen + t_stress + t_anxiety + t_depression
      in Inr (100 * score_norm)))))))))))))))))))))))"

subsection \<open>The tier message (lines 117 to 123)\<close>

text \<open>\<open>Favorable\<close> is the \<^verbatim>\<open>st.success\<close> message with balloons, \<open>Fair\<close> the
  \<^verbatim>\<open>st.info\<close> message, \<open>Concerning\<close> the \<^verbatim>\<open>st.warning\<close> message.\<close>

datatype tier = Favorable | Fair | Concerning

definition tier_of :: "real \<Rightarrow> tier" where
  "tier_of score =
     (if score \<ge> 75 then Favorable
      else if score \<ge> 50 then Fair
      else Concerning)"

subsection \<open>Recommendations (lines 129 to 172)\<close>

text \<open>One constructor per message text appended in the source, in the order of the
  source lines 133, 135, 139, 143, 145, 149, 153, 155, 157, 161 and 165.\<close>

datatype recommendation =
    Sleep_short | Sleep_long | Screen_time | Exercise_frequency | Exercise_duration
  | Diet | Stress | Anxiety | Mood | Social_life | Happiness

text \<open>The list starts empty and each rule appends to it.\<close>

definition recommendations :: "inputs \<Rightarrow> recommendation list" where
  "recommendations b =
     (let r0 = [];
          r1 = (if sleep_hours b < 7 then r0 @ [Sleep_short]
                else if sleep_hours b > 9 then r0 @ [Sleep_long]
                else r0);
          r2 = (if screen_time b > 5 then r1 @ [Screen_time] else r1);
          r3 = (if exercise_frequency b < 3 then r2 @ [Exercise_frequency]
                else if exercise_duration b < 30 then r2 @ [Exercise_duration]
                else r2);
          r4 = (if diet_quality b < 3 then r3 @ [Diet] else r3);
          r5 = (if stress_level b > 6 then r4 @ [Stress] else r4);
          r6 = (if anxiety_level b > 6 then r5 @ [Anxiety] else r5);
          r7 = (if depression_level b > 6 then r6 @ [Mood] else r6);
          r8 = (if social_interaction b < 3 then r7 @ [Social_life] else r7);
          r9 = (if happiness_level b < 5 then r8 @ [Happiness] else r8)
      in r9)"

text \<open>What is rendered: one bullet per tip when the list is not empty, the success
  message otherwise.\<close>

datatype output_line = Tip recommendation | All_good

definition display_tips :: "recommendation list \<Rightarrow> output_line list" where
  "display_tips recs = (if recs \<noteq> [] then map Tip recs else [All_good])"

section \<open>The specification's notions\<close>

text \<open>The definitions of this section follow the words of the specification; the
  theorems below compare them with the definitions taken from the source.\<close>

text \<open>The declared range of each of the eleven scored features.\<close>

definition in_domain :: "inputs \<Rightarrow> bool" where
  "in_domain b \<longleftrightarrow>
     0 \<le> sleep_hours b \<and> sleep_hours b \<le> 12 \<and>
     0 \<le> daily_steps b \<and> daily_steps b \<le> 30000 \<and>
     0 \<le> exercise_frequency b \<and> exercise_frequency b \<le> 7 \<and>
     0 \<le> exercise_duration b \<and> exercise_duration b \<le> 180 \<and>
     1 \<le> diet_quality b \<and> diet_quality b \<le> 5 \<and>
     0 \<le> social_interaction b \<and> social_interaction b \<le> 20 \<and>
     1 \<le> happiness_level b \<and> happiness_level b \<le> 10 \<and>
     0 \<le> screen_time b \<and> screen_time b \<le> 12 \<and>
     1 \<le> stress_level b \<and> stress_level b \<le> 10 \<and>
     1 \<le> anxiety_level b \<and> anxiety_level b \<le> 10 \<and>
     1 \<le> depression_level b \<and> depression_level b \<le> 10"

text \<open>The all-optimal and the all-worst values of the eleven scored features, put into
  a batch whose other four fields are left as they are.\<close>

definition all_optimal :: "inputs \<Rightarrow> inputs" where
  "all_optimal b =
     b\<lparr>sleep_hours := 8, daily_steps := 30000, exercise_frequency := 7,
       exercise_duration := 180, diet_quality := 5, social_interaction := 20,
       happiness_level := 10, screen_time := 0, stress_level := 1, anxiety_level := 1,
       depression_level := 1\<rparr>"

definition all_worst :: "inputs \<Rightarrow> inputs" where
  "all_worst b =
     b\<lparr>sleep_hours := 0, daily_steps := 0, exercise_frequency := 0,
       exercise_duration := 0, diet_quality := 1, social_interaction := 0,
       happiness_level := 1, screen_time := 12, stress_level := 10, anxiety_level := 10,
       depression_level := 10\<rparr>"

text \<open>Two batches agree on the eleven scored features.\<close>

definition same_features :: "inputs \<Rightarrow> inputs \<Rightarrow> bool" where
  "same_features b c \<longleftrightarrow>
     sleep_hours b = sleep_hours c \<and> daily_steps b = daily_steps c \<and>
     exercise_frequency b = exercise_frequency c \<and>
     exercise_duration b = exercise_duration c \<and> diet_quality b = diet_quality c \<and>
     social_interaction b = social_interaction c \<and>
     happiness_level b = happiness_level c \<and> screen_time b = screen_time c \<and>
     stress_level b = stress_level c \<and> anxiety_level b = anxiety_level c \<and>
     depression_level b = depression_level c"

text \<open>The three bands of the tier classification, as a relation between a score and a
  tier.\<close>

definition spec_tier :: "real \<Rightarrow> tier \<Rightarrow> bool" where
  "spec_tier score t \<longleftrightarrow>
     (case t of
        Favorable \<Rightarrow> score \<ge> 75
      | Fair \<Rightarrow> 50 \<le> score \<and> score < 75
      | Concerning \<Rightarrow> score < 50)"

text \<open>The fixed evaluation order of the rules, and the threshold at which each fires.\<close>

definition rule_order :: "recommendation list" where
  "rule_order =
     [Sleep_short, Sleep_long, Screen_time, Exercise_frequency, Exercise_duration,
      Diet, Stress, Anxiety, Mood, Social_life, Happiness]"

fun fires :: "inputs \<Rightarrow> recommendation \<Rightarrow> bool" where
  "fires b Sleep_short \<longleftrightarrow> sleep_hours b < 7"
| "fires b Sleep_long \<longleftrightarrow> sleep_hours b > 9"
| "fires b Screen_time \<longleftrightarrow> screen_time b > 5"
| "fires b Exercise_frequency \<longleftrightarrow> exercise_frequency b < 3"
| "fires b Exercise_duration \<longleftrightarrow> \<not> exercise_frequency b < 3 \<and> exercise_duration b < 30"
| "fires b Diet \<longleftrightarrow> diet_quality b < 3"
| "fires b Stress \<longleftrightarrow> stress_level b > 6"
| "fires b Anxiety \<longleftrightarrow> anxiety_level b > 6"
| "fires b Mood \<longleftrightarrow> depression_level b > 6"
| "fires b Social_life \<longleftrightarrow> social_interaction b < 3"
| "fires b Happiness \<longleftrightarrow> happiness_level b < 5"

text \<open>The nine categories of the specification: both sleep rules are of the sleep
  category, both exercise rules of the exercise category.\<close>

datatype category =
    Cat_sleep | Cat_screen_time | Cat_exercise | Cat_diet | Cat_stress | Cat_anxiety
  | Cat_depression | Cat_social | Cat_happiness

fun category_of :: "recommendation \<Rightarrow> category" where
  "category_of Sleep_short = Cat_sleep"
| "category_of Sleep_long = Cat_sleep"
| "category_of Screen_time = Cat_screen_time"
| "category_of Exercise_frequency = Cat_exercise"
| "category_of Exercise_duration = Cat_exercise"
| "category_of Diet = Cat_diet"
| "category_of Stress = Cat_stress"
| "category_of Anxiety = Cat_anxiety"
| "category_of Mood = Cat_depression"
| "category_of Social_life = Cat_social"
| "category_of Happiness = Cat_happiness"

text \<open>The two example batches of the specification for the rule engine, and two
  further batches, all given as changes to the initial values of the widgets.\<close>

definition quiet_inputs :: inputs where
  "quiet_inputs =
     default_inputs\<lparr>sleep_hours := 7.5, screen_time := 3, exercise_frequency := 4,
       diet_quality := 4, stress_level := 3, anxiety_level := 3, depression_level := 3\<rparr>"

definition troubled_inputs :: inputs where
  "troubled_inputs =
     default_inputs\<lparr>sleep_hours := 5, screen_time := 6, exercise_frequency := 1,
       diet_quality := 2, stress_level := 8, anxiety_level := 7, depression_level := 8,
       social_interaction := 1, happiness_level := 3\<rparr>"

definition idle_inputs :: inputs where
  "idle_inputs = default_inputs\<lparr>exercise_frequency := 1, exercise_duration := 10\<rparr>"

definition other_person :: inputs where
  "other_person =
     default_inputs\<lparr>age := 60, gender := Female, occupation := Working_Professional,
       exercise_type := Yoga\<rparr>"

section \<open>Properties of the normalisation functions\<close>

lemma clip_unit_bounds: "0 \<le> clip a 0 1 \<and> clip a 0 1 \<le> 1"
  by (simp add: clip_def)

lemma clip_unit_complement: "clip a 0 1 + clip (1 - a) 0 1 = 1"
  by (simp add: clip_def min_def max_def)

text \<open>
  Claim C7. For bounds \<open>min_val < max_val\<close> and every real \<open>x\<close>, however far outside
  the bounds, \<open>normalize_positive\<close> and \<open>normalize_negative\<close> raise nothing and return a
  value between 0 and 1 inclusive. Input outside the bounds is clamped: at or below
  \<open>min_val\<close> the results are 0 and 1, at or above \<open>max_val\<close> they are 1 and 0; between
  the bounds the results are the linear ramp and its complement.
\<close>

theorem normalize_unit_interval:
  assumes "min_val < max_val"
  shows "(\<exists>v. normalize_positive x min_val max_val = Inr v \<and> 0 \<le> v \<and> v \<le> 1) \<and>
         (\<exists>v. normalize_negative x min_val max_val = Inr v \<and> 0 \<le> v \<and> v \<le> 1) \<and>
         (x \<le> min_val \<longrightarrow>
            normalize_positive x min_val max_val = Inr 0 \<and>
            normalize_negative x min_val max_val = Inr 1) \<and>
         (max_val \<le> x \<longrightarrow>
            normalize_positive x min_val max_val = Inr 1 \<and>
            normalize_negative x min_val max_val = Inr 0) \<and>
         (min_val \<le> x \<and> x \<le> max_val \<longrightarrow>
            normalize_positive x min_val max_val = Inr ((x - min_val) / (max_val - min_val)) \<and>
            normalize_negative x min_val max_val =
              Inr (1 - (x - min_val) / (max_val - min_val)))"
proof -
  from assms have d: "0 < max_val - min_val" by simp
  let ?t = "(x - min_val) / (max_val - min_val)"
  have pos: "normalize_positive x min_val max_val = Inr (clip ?t 0 1)"
    and neg: "normalize_negative x min_val max_val = Inr (clip (1 - ?t) 0 1)"
    using d by (simp_all add: normalize_positive_def normalize_negative_def)
  have low: "?t \<le> 0" if "x \<le> min_val"
    using that d by (simp add: divide_le_0_iff)
  have high: "1 \<le> ?t" if "max_val \<le> x"
    using that d by (simp add: le_divide_eq)
  have mid: "0 \<le> ?t \<and> ?t \<le> 1" if "min_val \<le> x \<and> x \<le> max_val"
    using that d by (simp add: divide_le_eq)
  have c0: "clip t 0 1 = 0 \<and> clip (1 - t) 0 1 = 1" if "t \<le> 0" for t :: real
    using that by (simp add: clip_def)
  have c1: "clip t 0 1 = 1 \<and> clip (1 - t) 0 1 = 0" if "1 \<le> t" for t :: real
    using that by (simp add: clip_def)
  have cm: "clip t 0 1 = t \<and> clip (1 - t) 0 1 = 1 - t" if "0 \<le> t \<and> t \<le> 1" for t :: real
    using that by (simp add: clip_def)
  show ?thesis
    unfolding pos neg
    using clip_unit_bounds [of ?t] clip_unit_bounds [of "1 - ?t"] c0 [OF low] c1 [OF high]
      cm [OF mid]
    by simp
qed

theorem normalize_unit_interval_witness:
  "(0::real) < 30000 \<and>
   ((30000::real) \<le> 1000000 \<and>
    normalize_positive 1000000 0 30000 = Inr 1 \<and>
    normalize_negative 1000000 0 30000 = Inr 0) \<and>
   ((- 1000000::real) \<le> 0 \<and>
    normalize_positive (- 1000000) 0 30000 = Inr 0 \<and>
    normalize_negative (- 1000000) 0 30000 = Inr 1) \<and>
   ((0::real) \<le> 7500 \<and> (7500::real) \<le> 30000 \<and>
    normalize_positive 7500 0 30000 = Inr (1 / 4) \<and>
    normalize_negative 7500 0 30000 = Inr (3 / 4))"
proof -
  have h: "(0::real) < 30000" by simp
  from h normalize_unit_interval [OF h, of 1000000]
    normalize_unit_interval [OF h, of "- 1000000"]
    normalize_unit_interval [OF h, of 7500]
  show ?thesis by simp
qed

text \<open>
  Claim C8. With \<open>min_val < max_val\<close>, \<open>normalize_positive\<close> is 0 at \<open>min_val\<close> and 1 at
  \<open>max_val\<close>, and \<open>normalize_negative\<close> is 1 at \<open>min_val\<close> and 0 at \<open>max_val\<close>.
\<close>

theorem normalize_endpoints:
  assumes "min_val < max_val"
  shows "normalize_positive min_val min_val max_val = Inr 0 \<and>
         normalize_positive max_val min_val max_val = Inr 1 \<and>
         normalize_negative min_val min_val max_val = Inr 1 \<and>
         normalize_negative max_val min_val max_val = Inr 0"
  using assms
  by (simp add: normalize_positive_def normalize_negative_def clip_def)

theorem normalize_endpoints_witness:
  "(1::real) < 10 \<and>
   normalize_positive 1 1 10 = Inr 0 \<and> normalize_positive 10 1 10 = Inr 1 \<and>
   normalize_negative 1 1 10 = Inr 1 \<and> normalize_negative 10 1 10 = Inr 0"
proof -
  have h: "(1::real) < 10" by simp
  from h normalize_endpoints [OF h] show ?thesis by (intro conjI) simp_all
qed

text \<open>
  Claim C9. With \<open>min_val < max_val\<close>, for every real \<open>x\<close> the two functions return
  values that add up to 1: each is the complement of the other, also where they clamp.
\<close>

theorem normalize_complement:
  assumes "min_val < max_val"
  shows "\<exists>p n. normalize_positive x min_val max_val = Inr p \<and>
               normalize_negative x min_val max_val = Inr n \<and> p + n = 1"
  using assms
  by (simp add: normalize_positive_def normalize_negative_def clip_unit_complement)

theorem normalize_complement_witness:
  "(0::real) < 12 \<and>
   (\<exists>p n. normalize_positive 15 0 12 = Inr p \<and> normalize_negative 15 0 12 = Inr n \<and> p + n = 1)"
proof -
  have h: "(0::real) < 12" by simp
  from h normalize_complement [OF h, of 15] show ?thesis by (intro conjI)
qed

section \<open>The sleep score\<close>

lemma normalize_sleep_eq:
  "normalize_sleep x =
     Some (if x < 4 \<or> x > 12 then 0 else if x < 7 then (x - 4) / 3
           else if x \<le> 9 then 1 else 1 - (x - 9) / 3)"
  by (auto simp add: normalize_sleep_def)

lemma normalize_sleep_not_None: "normalize_sleep x \<noteq> None"
  by (simp only: normalize_sleep_eq option.distinct not_False_eq_True)

lemma normalize_sleep_bounds: "normalize_sleep x = Some y \<Longrightarrow> 0 \<le> y \<and> y \<le> 1"
  by (auto simp add: normalize_sleep_def split: if_splits)

text \<open>
  Claim C2. \<open>normalize_sleep\<close> returns a number for every real input, never \<open>None\<close>,
  and the number is the one of the piecewise specification with its inclusive boundaries:
  0 below 4 and above 12, \<open>(x - 4) / 3\<close> from 4 up to 7, 1 from 7 to 9 and
  \<open>1 - (x - 9) / 3\<close> above 9 up to 12; the seven listed values are as stated.
\<close>

theorem normalize_sleep_piecewise:
  "(\<exists>y. normalize_sleep x = Some y) \<and>
   (x < 4 \<or> x > 12 \<longrightarrow> normalize_sleep x = Some 0) \<and>
   (4 \<le> x \<and> x < 7 \<longrightarrow> normalize_sleep x = Some ((x - 4) / 3)) \<and>
   (7 \<le> x \<and> x \<le> 9 \<longrightarrow> normalize_sleep x = Some 1) \<and>
   (9 < x \<and> x \<le> 12 \<longrightarrow> normalize_sleep x = Some (1 - (x - 9) / 3)) \<and>
   normalize_sleep 4 = Some 0 \<and> normalize_sleep 7 = Some 1 \<and>
   normalize_sleep 9 = Some 1 \<and> normalize_sleep 12 = Some 0 \<and>
   normalize_sleep 3.9 = Some 0 \<and> normalize_sleep 12.1 = Some 0 \<and>
   normalize_sleep 5.5 = Some 0.5"
proof (intro conjI)
  show "\<exists>y. normalize_sleep x = Some y"
    using normalize_sleep_not_None [of x] by blast
qed (simp_all add: normalize_sleep_def)

theorem normalize_sleep_piecewise_witness:
  "((2::real) < 4 \<and> normalize_sleep 2 = Some 0) \<and>
   ((13::real) > 12 \<and> normalize_sleep 13 = Some 0) \<and>
   ((4::real) \<le> 6 \<and> (6::real) < 7 \<and> normalize_sleep 6 = Some (2 / 3)) \<and>
   ((7::real) \<le> 8 \<and> (8::real) \<le> 9 \<and> normalize_sleep 8 = Some 1) \<and>
   ((9::real) < 10.5 \<and> (10.5::real) \<le> 12 \<and> normalize_sleep 10.5 = Some 0.5)"
  using normalize_sleep_piecewise [of 2] normalize_sleep_piecewise [of 13]
    normalize_sleep_piecewise [of 6] normalize_sleep_piecewise [of 8]
    normalize_sleep_piecewise [of "10.5"]
  by simp

section \<open>The weights\<close>

lemma lookup_weights:
  "lookup_weight ''Sleep_Hours'' = Inr 0.1"
  "lookup_weight ''Daily_Steps'' = Inr 0.1"
  "lookup_weight ''Exercise_Frequency'' = Inr 0.1"
  "lookup_weight ''Exercise_Duration'' = Inr 0.1"
  "lookup_weight ''Diet_Quality'' = Inr 0.1"
  "lookup_weight ''Social_Interaction'' = Inr 0.1"
  "lookup_weight ''Happiness_Level'' = Inr 0.1"
  "lookup_weight ''Screen_Time_Hours'' = Inr 0.1"
  "lookup_weight ''Stress_Level'' = Inr 0.1"
  "lookup_weight ''Anxiety_Level'' = Inr 0.05"
  "lookup_weight ''Depression_Level'' = Inr 0.05"
  by (simp_all add: lookup_weight_def FEATURE_WEIGHTS_def)

text \<open>
  Claim C3. The eleven weights of \<open>FEATURE_WEIGHTS\<close>, one for each of the eleven named
  features, add up to 1, and each weight lies between 0 and 1.
\<close>

theorem feature_weights_sum:
  "sum_list (map snd FEATURE_WEIGHTS) = 1 \<and>
   (\<forall>(k, w) \<in> set FEATURE_WEIGHTS. 0 \<le> w \<and> w \<le> 1) \<and>
   map fst FEATURE_WEIGHTS =
     [''Sleep_Hours'', ''Daily_Steps'', ''Exercise_Frequency'', ''Exercise_Duration'',
      ''Diet_Quality'', ''Social_Interaction'', ''Happiness_Level'', ''Screen_Time_Hours'',
      ''Stress_Level'', ''Anxiety_Level'', ''Depression_Level''] \<and>
   distinct (map fst FEATURE_WEIGHTS)"
  by (simp add: FEATURE_WEIGHTS_def)

theorem feature_weights_sum_witness:
  "(''Anxiety_Level'', 0.05) \<in> set FEATURE_WEIGHTS \<and> (0::real) \<le> 0.05 \<and> (0.05::real) \<le> 1"
proof -
  have m: "(''Anxiety_Level'', 0.05) \<in> set FEATURE_WEIGHTS"
    by (simp add: FEATURE_WEIGHTS_def)
  from feature_weights_sum have "\<forall>(k, w) \<in> set FEATURE_WEIGHTS. 0 \<le> w \<and> w \<le> 1"
    by blast
  with m have "(0::real) \<le> 0.05 \<and> (0.05::real) \<le> 1" by blast
  with m show ?thesis by blast
qed

section \<open>The composite score\<close>

lemma bind_result_Inr: "bind_result (Inr v) f = f v"
  by (simp add: bind_result_def)

lemma times_weight_Some:
  "lookup_weight k = Inr w \<Longrightarrow> times_weight (Some v) k = Inr (v * w)"
  by (simp add: times_weight_def bind_result_def)

lemma normalize_positive_Inr:
  "min_val < max_val \<Longrightarrow>
   normalize_positive x min_val max_val =
     Inr (clip ((x - min_val) / (max_val - min_val)) 0 1)"
  by (simp add: normalize_positive_def)

lemma normalize_negative_Inr:
  "min_val < max_val \<Longrightarrow>
   normalize_negative x min_val max_val =
     Inr (clip (1 - (x - min_val) / (max_val - min_val)) 0 1)"
  by (simp add: normalize_negative_def)

text \<open>With the sleep score known, the score is the weighted sum written out.\<close>

lemma mhs_score_Some:
  assumes "normalize_sleep (sleep_hours b) = Some s"
  shows "mhs_score b =
     Inr (100 *
       (s * 0.1 +
        clip ((real_of_int (daily_steps b) - 0) / (30000 - 0)) 0 1 * 0.1 +
        clip ((real_of_int (exercise_frequency b) - 0) / (7 - 0)) 0 1 * 0.1 +
        clip ((real_of_int (exercise_duration b) - 0) / (180 - 0)) 0 1 * 0.1 +
        clip ((real_of_int (diet_quality b) - 1) / (5 - 1)) 0 1 * 0.1 +
        clip ((real_of_int (social_interaction b) - 0) / (20 - 0)) 0 1 * 0.1 +
        clip ((real_of_int (happiness_level b) - 1) / (10 - 1)) 0 1 * 0.1 +
        clip (1 - (screen_time b - 0) / (12 - 0)) 0 1 * 0.1 +
        clip (1 - (real_of_int (stress_level b) - 1) / (10 - 1)) 0 1 * 0.1 +
        clip (1 - (real_of_int (anxiety_level b) - 1) / (10 - 1)) 0 1 * 0.05 +
        clip (1 - (real_of_int (depression_level b) - 1) / (10 - 1)) 0 1 * 0.05))"
  unfolding mhs_score_def Let_def assms
  by (simp only: normalize_positive_Inr normalize_negative_Inr bind_result_Inr
        times_weight_Some [OF lookup_weights(1)] times_weight_Some [OF lookup_weights(2)]
        times_weight_Some [OF lookup_weights(3)] times_weight_Some [OF lookup_weights(4)]
        times_weight_Some [OF lookup_weights(5)] times_weight_Some [OF lookup_weights(6)]
        times_weight_Some [OF lookup_weights(7)] times_weight_Some [OF lookup_weights(8)]
        times_weight_Some [OF lookup_weights(9)] times_weight_Some [OF lookup_weights(10)]
        times_weight_Some [OF lookup_weights(11)]
        zero_less_numeral one_less_numeral_iff semiring_norm)

lemma weighted_sum_bounds:
  fixes a1 :: real
  assumes "0 \<le> a1 \<and> a1 \<le> 1" "0 \<le> a2 \<and> a2 \<le> 1" "0 \<le> a3 \<and> a3 \<le> 1"
    "0 \<le> a4 \<and> a4 \<le> 1" "0 \<le> a5 \<and> a5 \<le> 1" "0 \<le> a6 \<and> a6 \<le> 1"
    "0 \<le> a7 \<and> a7 \<le> 1" "0 \<le> a8 \<and> a8 \<le> 1" "0 \<le> a9 \<and> a9 \<le> 1"
    "0 \<le> a10 \<and> a10 \<le> 1" "0 \<le> a11 \<and> a11 \<le> 1"
  shows "0 \<le> 100 * (a1 * 0.1 + a2 * 0.1 + a3 * 0.1 + a4 * 0.1 + a5 * 0.1 + a6 * 0.1 +
                  a7 * 0.1 + a8 * 0.1 + a9 * 0.1 + a10 * 0.05 + a11 * 0.05) \<and>
         100 * (a1 * 0.1 + a2 * 0.1 + a3 * 0.1 + a4 * 0.1 + a5 * 0.1 + a6 * 0.1 +
                  a7 * 0.1 + a8 * 0.1 + a9 * 0.1 + a10 * 0.05 + a11 * 0.05) \<le> 100"
  using assms by simp

text \<open>The score is a number between 0 and 100 for every batch, in its domain or not.\<close>

lemma mhs_score_bounds: "\<exists>s. mhs_score b = Inr s \<and> 0 \<le> s \<and> s \<le> 100"
proof -
  obtain y where y: "normalize_sleep (sleep_hours b) = Some y"
    using normalize_sleep_not_None by blast
  have yb: "0 \<le> y \<and> y \<le> 1" using normalize_sleep_bounds [OF y] .
  show ?thesis
    unfolding mhs_score_Some [OF y]
    using weighted_sum_bounds [OF yb clip_unit_bounds clip_unit_bounds clip_unit_bounds
        clip_unit_bounds clip_unit_bounds clip_unit_bounds clip_unit_bounds clip_unit_bounds
        clip_unit_bounds clip_unit_bounds]
    by blast
qed

lemma in_domain_default: "in_domain default_inputs"
  by (simp add: in_domain_def default_inputs_def)

text \<open>
  Claim C1. For every batch whose eleven scored features lie in their declared ranges the
  score is computed without error and lies between 0 and 100; a batch with the all-optimal
  feature values scores exactly 100 and a batch with the all-worst values exactly 0.
\<close>

theorem mhs_score_range:
  assumes "in_domain b"
  shows "(\<exists>s. mhs_score b = Inr s \<and> 0 \<le> s \<and> s \<le> 100) \<and>
         mhs_score (all_optimal c) = Inr 100 \<and>
         mhs_score (all_worst d) = Inr 0"
proof (intro conjI)
  show "\<exists>s. mhs_score b = Inr s \<and> 0 \<le> s \<and> s \<le> 100"
    by (rule mhs_score_bounds)
next
  have "normalize_sleep (sleep_hours (all_optimal c)) = Some 1"
    by (simp add: all_optimal_def normalize_sleep_def)
  from mhs_score_Some [OF this] show "mhs_score (all_optimal c) = Inr 100"
    by (simp add: all_optimal_def clip_def)
next
  have "normalize_sleep (sleep_hours (all_worst d)) = Some 0"
    by (simp add: all_worst_def normalize_sleep_def)
  from mhs_score_Some [OF this] show "mhs_score (all_worst d) = Inr 0"
    by (simp add: all_worst_def clip_def)
qed

theorem mhs_score_range_witness:
  "in_domain default_inputs \<and>
   (\<exists>s. mhs_score default_inputs = Inr s \<and> 0 \<le> s \<and> s \<le> 100) \<and>
   mhs_score (all_optimal default_inputs) = Inr 100 \<and>
   mhs_score (all_worst default_inputs) = Inr 0"
  using in_domain_default
    mhs_score_range [OF in_domain_default, of default_inputs default_inputs]
  by (intro conjI) simp_all

section \<open>The tier\<close>

text \<open>
  Claim C6. A score of at least 75 is in the favorable tier, a score from 50 up to but
  not including 75 in the fair tier, a score below 50 in the concerning tier; the three
  bands do not overlap and leave no score out, so exactly one tier applies to each score,
  the one the code selects.
\<close>

theorem tier_classification:
  "(score \<ge> 75 \<longrightarrow> tier_of score = Favorable) \<and>
   (50 \<le> score \<and> score < 75 \<longrightarrow> tier_of score = Fair) \<and>
   (score < 50 \<longrightarrow> tier_of score = Concerning) \<and>
   (spec_tier score t \<longleftrightarrow> tier_of score = t) \<and>
   (\<exists>!u. spec_tier score u)"
proof -
  have eq: "spec_tier score u \<longleftrightarrow> tier_of score = u" for u
    by (cases u) (auto simp add: spec_tier_def tier_of_def)
  have "\<exists>!u. spec_tier score u"
    unfolding eq by simp
  then show ?thesis
    by (simp add: eq) (simp add: tier_of_def)
qed

theorem tier_classification_witness:
  "((80::real) \<ge> 75 \<and> tier_of 80 = Favorable \<and> spec_tier 80 Favorable) \<and>
   ((50::real) \<le> 60 \<and> (60::real) < 75 \<and> tier_of 60 = Fair \<and> spec_tier 60 Fair) \<and>
   ((10::real) < 50 \<and> tier_of 10 = Concerning \<and> spec_tier 10 Concerning)"
  using tier_classification [of 80 Favorable] tier_classification [of 60 Fair]
    tier_classification [of 10 Concerning]
  by simp

section \<open>The recommendation rules\<close>

lemma count_list_distinct:
  "distinct xs \<Longrightarrow> count_list xs x = (if x \<in> set xs then 1 else 0)"
  by (induction xs) auto

lemma snoc_if: "(if c then xs @ ys else xs) = xs @ (if c then ys else [])"
  by simp

lemma append_if: "(if c then xs @ ys else xs @ zs) = xs @ (if c then ys else zs)"
  by simp

lemma filter_Cons_append: "filter P (x # xs) = (if P x then [x] else []) @ filter P xs"
  by simp

lemma recommendations_filter: "recommendations b = filter (fires b) rule_order"
proof -
  have sleep:
    "(if sleep_hours b < 7 then [Sleep_short]
      else if sleep_hours b > 9 then [Sleep_long] else []) =
     (if sleep_hours b < 7 then [Sleep_short] else []) @
     (if sleep_hours b > 9 then [Sleep_long] else [])"
    by simp
  have exercise:
    "(if exercise_frequency b < 3 then [Exercise_frequency]
      else if exercise_duration b < 30 then [Exercise_duration] else []) =
     (if exercise_frequency b < 3 then [Exercise_frequency] else []) @
     (if \<not> exercise_frequency b < 3 \<and> exercise_duration b < 30
      then [Exercise_duration] else [])"
    by simp
  show ?thesis
    unfolding recommendations_def append_if snoc_if
    unfolding Let_def rule_order_def filter_Cons_append filter.simps(1) fires.simps
      append_Nil append_Nil2 append_assoc sleep exercise
    by (rule refl)
qed

lemma distinct_rule_order: "distinct rule_order"
  by (simp add: rule_order_def)

lemma all_rules_listed: "r \<in> set rule_order"
  by (cases r) (simp_all add: rule_order_def)

lemma recommendations_member: "r \<in> set (recommendations b) \<longleftrightarrow> fires b r"
  by (simp add: recommendations_filter all_rules_listed)

lemma recommendations_distinct: "distinct (recommendations b)"
  by (simp add: recommendations_filter distinct_rule_order)

lemma fires_same_category:
  assumes "fires b x" and "fires b y" and "category_of x = category_of y"
  shows "x = y"
  using assms by (cases x; cases y) simp_all

lemma recommendations_categories: "distinct (map category_of (recommendations b))"
proof -
  have "inj_on category_of (set (recommendations b))"
    by (rule inj_onI) (simp add: recommendations_member fires_same_category)
  with recommendations_distinct show ?thesis
    by (simp add: distinct_map)
qed

lemma display_tips_cases:
  "display_tips recs = (if recs = [] then [All_good] else map Tip recs)"
  by (simp add: display_tips_def)

text \<open>
  Claim C4. The rules are evaluated in the fixed order sleep (below 7, else above 9),
  screen time, exercise (frequency below 3, else duration below 30), diet, stress, anxiety,
  depression, social interaction, happiness. The output is the list of the rules that fire,
  in that order, each exactly once, with at most one recommendation per category. When no
  rule fires the list is empty and what is displayed is the single all-good marker; when
  some rule fires the tips are displayed.
\<close>

theorem recommendations_rules:
  "recommendations b = filter (fires b) rule_order \<and>
   subseq (recommendations b) rule_order \<and>
   (\<forall>r. count_list (recommendations b) r = (if fires b r then 1 else 0)) \<and>
   distinct (recommendations b) \<and>
   distinct (map category_of (recommendations b)) \<and>
   ((\<exists>r. fires b r) \<longrightarrow>
      recommendations b \<noteq> [] \<and>
      display_tips (recommendations b) = map Tip (recommendations b)) \<and>
   ((\<forall>r. \<not> fires b r) \<longrightarrow>
      recommendations b = [] \<and> display_tips (recommendations b) = [All_good])"
proof -
  have cnt: "count_list (recommendations b) r = (if fires b r then 1 else 0)" for r
    by (simp add: count_list_distinct [OF recommendations_distinct] recommendations_member)
  have nonempty: "recommendations b \<noteq> []" if "\<exists>r. fires b r"
  proof -
    from that obtain r where "fires b r" ..
    then have "r \<in> set (recommendations b)" by (simp add: recommendations_member)
    then show ?thesis by auto
  qed
  have empty: "recommendations b = []" if "\<forall>r. \<not> fires b r"
    using that by (simp add: recommendations_filter)
  have sub: "subseq (recommendations b) rule_order"
    by (simp add: recommendations_filter)
  from recommendations_filter sub cnt recommendations_distinct recommendations_categories
    nonempty empty
  show ?thesis
    by (simp add: display_tips_cases)
qed


lemma recommendations_troubled:
  "recommendations troubled_inputs =
     [Sleep_short, Screen_time, Exercise_frequency, Diet, Stress, Anxiety, Mood,
      Social_life, Happiness]"
  by (simp add: recommendations_def troubled_inputs_def default_inputs_def)

theorem recommendations_rules_witness:
  "(\<forall>r. \<not> fires quiet_inputs r) \<and>
   display_tips (recommendations quiet_inputs) = [All_good] \<and>
   (\<exists>r. fires troubled_inputs r) \<and>
   display_tips (recommendations troubled_inputs) =
     map Tip [Sleep_short, Screen_time, Exercise_frequency, Diet, Stress, Anxiety, Mood,
              Social_life, Happiness]"
proof -
  have q: "\<forall>r. \<not> fires quiet_inputs r"
  proof
    fix r show "\<not> fires quiet_inputs r"
      by (cases r) (simp_all add: quiet_inputs_def default_inputs_def)
  qed
  have t: "\<exists>r. fires troubled_inputs r"
    by (rule exI [of _ Sleep_short]) (simp add: troubled_inputs_def default_inputs_def)
  from q recommendations_rules [of quiet_inputs]
  have 1: "display_tips (recommendations quiet_inputs) = [All_good]" by blast
  from t recommendations_rules [of troubled_inputs]
  have "display_tips (recommendations troubled_inputs) =
        map Tip (recommendations troubled_inputs)" by blast
  then have 2: "display_tips (recommendations troubled_inputs) =
     map Tip [Sleep_short, Screen_time, Exercise_frequency, Diet, Stress, Anxiety, Mood,
              Social_life, Happiness]"
    by (simp only: recommendations_troubled)
  from q 1 t 2 show ?thesis by (intro conjI)
qed

text \<open>
  Claim C5. The exercise-duration recommendation never appears together with the
  exercise-frequency recommendation: the duration rule is evaluated only when the
  exercise frequency is at least 3.
\<close>

theorem exercise_rules_exclusive:
  "(Exercise_frequency \<in> set (recommendations b) \<longrightarrow>
      Exercise_duration \<notin> set (recommendations b)) \<and>
   (Exercise_duration \<in> set (recommendations b) \<longleftrightarrow>
      exercise_frequency b \<ge> 3 \<and> exercise_duration b < 30) \<and>
   (Exercise_frequency \<in> set (recommendations b) \<longleftrightarrow> exercise_frequency b < 3)"
  by (auto simp add: recommendations_member)

theorem exercise_rules_exclusive_witness:
  "Exercise_frequency \<in> set (recommendations idle_inputs) \<and>
   Exercise_duration \<notin> set (recommendations idle_inputs) \<and>
   exercise_duration idle_inputs < 30"
proof -
  have f: "exercise_frequency idle_inputs < 3" and d: "exercise_duration idle_inputs < 30"
    by (simp_all add: idle_inputs_def default_inputs_def)
  from f exercise_rules_exclusive [of idle_inputs]
  have m: "Exercise_frequency \<in> set (recommendations idle_inputs)" by blast
  with exercise_rules_exclusive [of idle_inputs]
  have "Exercise_duration \<notin> set (recommendations idle_inputs)" by blast
  with m d show ?thesis by (intro conjI)
qed

section \<open>Inputs that are collected and not used\<close>

text \<open>
  Claim C10. Two batches that agree on the eleven scored features have the same score and
  the same recommendations, however they differ in age, gender, occupation and exercise
  type.
\<close>

theorem unscored_inputs_noninterference:
  assumes "same_features b c"
  shows "mhs_score b = mhs_score c \<and> recommendations b = recommendations c"
  using assms
  by (simp add: same_features_def mhs_score_def recommendations_def)

theorem unscored_inputs_noninterference_witness:
  "same_features default_inputs other_person \<and> default_inputs \<noteq> other_person \<and>
   mhs_score default_inputs = mhs_score other_person \<and>
   recommendations default_inputs = recommendations other_person"
proof -
  have s: "same_features default_inputs other_person"
    by (simp add: same_features_def other_person_def default_inputs_def)
  have "age default_inputs \<noteq> age other_person"
    by (simp add: other_person_def default_inputs_def)
  then have n: "default_inputs \<noteq> other_person" by auto
  from s n unscored_inputs_noninterference [OF s] show ?thesis by (intro conjI) simp_all
qed

end
